theory Spec2Isabelle
  imports Complex_Main
begin

section \<open>The document store\<close>

text \<open>
  The backend keeps three MongoDB collections (models \<open>User\<close>, \<open>Book\<close>, \<open>Review\<close>).
  Each collection is a list of documents in insertion order. An \<open>ObjectId\<close> is a
  natural number, a date is a natural number of ticks. JavaScript numbers are exact
  rationals here: ratings are validated integers, so every sum is exact, and only the
  division of the average leaves the integers.

  Of a \<open>User\<close> the routes below read the id and the active flag; of a \<open>Book\<close> the
  optional descriptive attributes \<open>isbn\<close>, \<open>coverImage\<close>, \<open>pageCount\<close>, \<open>language\<close>
  and \<open>publisher\<close> play no part in any route logic and are left out.
\<close>

type_synonym objectId = nat
type_synonym date = nat

record user =
  u_id :: objectId
  u_name :: string
  u_email :: string
  u_isActive :: bool

record book =
  b_id :: objectId
  title :: string
  author :: string
  description :: string
  genre :: string
  publishedYear :: int
  addedBy :: objectId
  tags :: "string list"
  b_isActive :: bool
  b_createdAt :: date

record review =
  r_id :: objectId
  bookId :: objectId
  userId :: objectId
  rating :: int
  reviewText :: string
  r_title :: "string option"
  likes :: "objectId list"
  r_isActive :: bool
  editedAt :: "date option"
  r_createdAt :: date

record store =
  users :: "user list"
  books :: "book list"
  reviews :: "review list"
  nextId :: objectId

text \<open>
  What a handler hands back when it does not answer with its payload: either it sends
  \<open>res.status(n).json({success: false, message})\<close> itself, or an exception leaves the
  handler and \<open>asyncHandler\<close> passes it on to the error middleware.
\<close>

datatype exn = DuplicateKey | ValidationError | TypeError

datatype failure = Status nat string | Thrown exn

subsection \<open>Sorting\<close>

text \<open>
  A stable insertion sort by a "comes no later than" test. It stands for the store's
  \<open>.sort\<close> (ties keep the collection order) and for \<open>Array.prototype.sort\<close>, which is
  stable and places \<open>a\<close> before \<open>b\<close> when the comparator is negative.
\<close>

fun insert_by :: "('a \<Rightarrow> 'a \<Rightarrow> bool) \<Rightarrow> 'a \<Rightarrow> 'a list \<Rightarrow> 'a list" where
  "insert_by le x [] = [x]"
| "insert_by le x (y # ys) = (if le x y then x # y # ys else y # insert_by le x ys)"

definition sort_by :: "('a \<Rightarrow> 'a \<Rightarrow> bool) \<Rightarrow> 'a list \<Rightarrow> 'a list" where
  "sort_by le xs = foldr (insert_by le) xs []"

definition array_sort :: "('a \<Rightarrow> 'a \<Rightarrow> rat) \<Rightarrow> 'a list \<Rightarrow> 'a list" where
  "array_sort cmp xs = sort_by (\<lambda>a b. cmp a b \<le> 0) xs"

subsection \<open>The Book model: populated reviews and the rating virtuals\<close>

text \<open>
  A hydrated Book document: the stored fields and the virtual \<open>reviews\<close>, which is
  undefined until a query populates it. \<open>populate_reviews\<close> is
  \<open>.populate('reviews')\<close> as the book routes call it: every Review whose \<open>bookId\<close> is
  the book's id, with no \<open>match\<close> on \<open>isActive\<close>.
\<close>

record book_doc =
  doc :: book
  doc_reviews :: "review list option"

definition populate_reviews :: "store \<Rightarrow> book \<Rightarrow> review list" where
  "populate_reviews st b = filter (\<lambda>r. bookId r = b_id b) (reviews st)"

definition Math_round :: "rat \<Rightarrow> int" where
  "Math_round x = \<lfloor>x + 1 / 2\<rfloor>"

definition averageRating :: "book_doc \<Rightarrow> rat" where
  "averageRating d =
     (case doc_reviews d of
        None \<Rightarrow> 0
      | Some rs \<Rightarrow>
          if length rs = 0 then 0
          else (let sum = foldl (\<lambda>acc r. acc + rating r) 0 rs
                in of_int (Math_round ((of_int sum / of_nat (length rs)) * 10)) / 10))"

definition reviewCount :: "book_doc \<Rightarrow> nat" where
  "reviewCount d = (case doc_reviews d of None \<Rightarrow> 0 | Some rs \<Rightarrow> length rs)"


definition hydrate :: "store \<Rightarrow> book \<Rightarrow> book_doc" where
  "hydrate st b = \<lparr>doc = b, doc_reviews = Some (populate_reviews st b)\<rparr>"

section \<open>The auth middleware\<close>

text \<open>
  \<open>jwt.verify\<close> belongs to a library: it is a parameter \<open>verify\<close> from the token to
  the decoded user id or to the error it throws. \<open>remove_first\<close> is
  \<open>String.prototype.replace\<close> with a string pattern and the empty replacement: the first
  occurrence goes.
\<close>

datatype jwt_result = Payload objectId | JsonWebTokenError | TokenExpiredError | OtherError

fun remove_first :: "string \<Rightarrow> string \<Rightarrow> string" where
  "remove_first pat [] = []"
| "remove_first pat (c # cs) =
     (if take (length pat) (c # cs) = pat then drop (length pat) (c # cs)
      else c # remove_first pat cs)"

definition auth :: "(string \<Rightarrow> jwt_result) \<Rightarrow> store \<Rightarrow> string option \<Rightarrow> failure + user" where
  "auth verify st authorization =
     (case map_option (remove_first ''Bearer '') authorization of
        None \<Rightarrow> Inl (Status 401 ''Access denied. No token provided.'')
      | Some token \<Rightarrow>
          if token = [] then Inl (Status 401 ''Access denied. No token provided.'')
          else (case verify token of
                  JsonWebTokenError \<Rightarrow> Inl (Status 401 ''Invalid token.'')
                | TokenExpiredError \<Rightarrow> Inl (Status 401 ''Token expired.'')
                | OtherError \<Rightarrow> Inl (Status 500 ''Server error during authentication.'')
                | Payload uid \<Rightarrow>
                    (case find (\<lambda>u. u_id u = uid) (users st) of
                       None \<Rightarrow> Inl (Status 401 ''Invalid token or user not found.'')
                     | Some u \<Rightarrow>
                         if u_isActive u then Inr u
                         else Inl (Status 401 ''Invalid token or user not found.''))))"

section \<open>The book routes: reading\<close>

subsection \<open>GET /api/books\<close>

text \<open>
  The query parameters arrive as strings. The record holds what \<open>parseInt\<close> and
  \<open>parseFloat\<close> make of them in a well-formed request: \<open>page\<close> and \<open>limit\<close> are
  positive integers (the results below assume so: the handler does not validate them), a
  year or a rating is absent (\<open>None\<close>, also for the empty string, which is falsy) or a
  number. \<open>sortBy\<close> is one of the keys of \<open>BookFilters\<close>; \<open>sortOrder\<close> stays a string,
  as the handler only asks whether it is \<open>'desc'\<close>. The store's case-insensitive
  \<open>$regex\<close> match is a parameter \<open>rx\<close> (pattern, then subject).
\<close>

datatype sort_key = SortTitle | SortAuthor | SortPublishedYear | SortAverageRating | SortCreatedAt

record book_query =
  q_page :: nat
  q_limit :: nat
  q_search :: "string option"
  q_genre :: "string option"
  q_sortBy :: sort_key
  q_sortOrder :: string
  q_minYear :: "int option"
  q_maxYear :: "int option"
  q_minRating :: "rat option"
  q_author :: "string option"

fun str_le :: "string \<Rightarrow> string \<Rightarrow> bool" where
  "str_le [] ys = True"
| "str_le (x # xs) [] = False"
| "str_le (x # xs) (y # ys) = (if x = y then str_le xs ys else (of_char x :: nat) < of_char y)"

definition book_matches :: "(string \<Rightarrow> string \<Rightarrow> bool) \<Rightarrow> book_query \<Rightarrow> book \<Rightarrow> bool" where
  "book_matches rx q b =
     (b_isActive b
      \<and> (case q_search q of
            None \<Rightarrow> True
          | Some s \<Rightarrow> if s = [] then True
                      else rx s (title b) \<or> rx s (author b) \<or> rx s (description b))
      \<and> (case q_genre q of
            None \<Rightarrow> True
          | Some g \<Rightarrow> if g = [] \<or> g = ''all'' then True else genre b = g)
      \<and> (case q_author q of
            None \<Rightarrow> True
          | Some a \<Rightarrow> if a = [] then True else rx a (author b))
      \<and> (case q_minYear q of None \<Rightarrow> True | Some y \<Rightarrow> y \<le> publishedYear b)
      \<and> (case q_maxYear q of None \<Rightarrow> True | Some y \<Rightarrow> publishedYear b \<le> y))"

definition sort_spec :: "sort_key \<Rightarrow> string \<Rightarrow> book \<Rightarrow> book \<Rightarrow> bool" where
  "sort_spec sortBy sortOrder a b =
     (case sortBy of
        SortAverageRating \<Rightarrow> b_createdAt b \<le> b_createdAt a
      | SortTitle \<Rightarrow>
          if sortOrder = ''desc'' then str_le (title b) (title a) else str_le (title a) (title b)
      | SortAuthor \<Rightarrow>
          if sortOrder = ''desc'' then str_le (author b) (author a) else str_le (author a) (author b)
      | SortPublishedYear \<Rightarrow>
          if sortOrder = ''desc'' then publishedYear b \<le> publishedYear a
          else publishedYear a \<le> publishedYear b
      | SortCreatedAt \<Rightarrow>
          if sortOrder = ''desc'' then b_createdAt b \<le> b_createdAt a
          else b_createdAt a \<le> b_createdAt b)"

definition find_books :: "(string \<Rightarrow> string \<Rightarrow> bool) \<Rightarrow> store \<Rightarrow> book_query \<Rightarrow> book_doc list" where
  "find_books rx st q =
     (let skip = (q_page q - 1) * q_limit q
      in map (hydrate st)
           (take (q_limit q)
              (drop skip
                 (sort_by (sort_spec (q_sortBy q) (q_sortOrder q))
                    (filter (book_matches rx q) (books st))))))"

definition countDocuments :: "(string \<Rightarrow> string \<Rightarrow> bool) \<Rightarrow> store \<Rightarrow> book_query \<Rightarrow> nat" where
  "countDocuments rx st q = length (filter (book_matches rx q) (books st))"

definition rating_compare :: "string \<Rightarrow> book_doc \<Rightarrow> book_doc \<Rightarrow> rat" where
  "rating_compare sortOrder a b =
     (let order = (if sortOrder = ''desc'' then - 1 else 1)
      in (averageRating b - averageRating a) * order)"

record pagination =
  currentPage :: nat
  totalPages :: nat
  totalBooks :: nat
  hasNextPage :: bool
  hasPrevPage :: bool

record books_data =
  data_books :: "book_doc list"
  data_pagination :: pagination
  data_genres :: "string list"

definition listBooks :: "(string \<Rightarrow> string \<Rightarrow> bool) \<Rightarrow> store \<Rightarrow> book_query \<Rightarrow> books_data" where
  "listBooks rx st q =
     (let found = find_books rx st q;
          filteredBooks =
            (case q_minRating q of
               None \<Rightarrow> found
             | Some m \<Rightarrow> filter (\<lambda>b. m \<le> averageRating b) found);
          sorted =
            (if q_sortBy q = SortAverageRating
             then array_sort (rating_compare (q_sortOrder q)) filteredBooks
             else filteredBooks);
          total = countDocuments rx st q;
          pages = nat \<lceil>(of_nat total :: rat) / of_nat (q_limit q)\<rceil>;
          allGenres = remdups (map genre (filter b_isActive (books st)))
      in \<lparr>data_books = sorted,
          data_pagination =
            \<lparr>currentPage = q_page q, totalPages = pages, totalBooks = total,
             hasNextPage = (q_page q < pages), hasPrevPage = (1 < q_page q)\<rparr>,
          data_genres = sort_by str_le allGenres\<rparr>)"

definition GET_books ::
  "(string \<Rightarrow> jwt_result) \<Rightarrow> (string \<Rightarrow> string \<Rightarrow> bool) \<Rightarrow> store \<Rightarrow> string option \<Rightarrow> book_query
     \<Rightarrow> failure + books_data" where
  "GET_books verify rx st authorization q =
     (case auth verify st authorization of
        Inl e \<Rightarrow> Inl e
      | Inr u \<Rightarrow> Inr (listBooks rx st q))"

subsection \<open>GET /api/books/:id\<close>

text \<open>
  The reviews are populated newest first, each with its author (\<open>userId\<close> populated from
  the users). \<open>find_userReview\<close> is the \<open>find\<close> callback run over them in order: reading
  \<open>r.userId._id\<close> throws when the author's document is missing.

  The callback's test is \<open>r.userId._id.toString() === req.user!._id\<close>: a strict equality
  of the string form of the author's id with what \<open>req.user._id\<close> holds. It is the
  argument \<open>same_id\<close> of the lookup (author's id, then caller's id). The value the auth
  middleware stores in \<open>req.user\<close> is the document hydrated by \<open>User.findById\<close>, whose
  \<open>_id\<close> is an ObjectId, and a string is never strictly equal to an object: the test the
  route computes is \<open>hydrated_ids\<close>. (The owner checks of the writing routes call
  \<open>toString()\<close> on both sides, and so do compare the ids.)
\<close>

definition hydrated_ids :: "objectId \<Rightarrow> objectId \<Rightarrow> bool" where
  "hydrated_ids a b = False"

definition newest_first :: "review \<Rightarrow> review \<Rightarrow> bool" where
  "newest_first a b = (r_createdAt b \<le> r_createdAt a)"

fun bump :: "int \<Rightarrow> (int \<times> nat) list \<Rightarrow> (int \<times> nat) list" where
  "bump k [] = []"
| "bump k ((j, c) # rest) = (if j = k then (j, c + 1) # rest else (j, c) # bump k rest)"

definition rating_distribution :: "review list \<Rightarrow> (int \<times> nat) list" where
  "rating_distribution rs =
     foldl (\<lambda>dist r. bump (rating r) dist) [(1, 0), (2, 0), (3, 0), (4, 0), (5, 0)] rs"

fun find_userReview ::
  "(objectId \<Rightarrow> objectId \<Rightarrow> bool) \<Rightarrow> user list \<Rightarrow> objectId \<Rightarrow> review list
     \<Rightarrow> failure + review option" where
  "find_userReview same_id us uid [] = Inr None"
| "find_userReview same_id us uid (r # rs) =
     (case find (\<lambda>u. u_id u = userId r) us of
        None \<Rightarrow> Inl (Thrown TypeError)
      | Some a \<Rightarrow>
          if same_id (u_id a) uid then Inr (Some r) else find_userReview same_id us uid rs)"

record book_data =
  data_book :: book_doc
  ratingDistribution :: "(int \<times> nat) list"
  userReview :: "review option"

definition getBook ::
  "(objectId \<Rightarrow> objectId \<Rightarrow> bool) \<Rightarrow> store \<Rightarrow> user option \<Rightarrow> objectId
     \<Rightarrow> failure + book_data" where
  "getBook same_id st req_user bid =
     (case find (\<lambda>b. b_id b = bid \<and> b_isActive b) (books st) of
        None \<Rightarrow> Inl (Status 404 ''Book not found'')
      | Some b \<Rightarrow>
          (let rs = sort_by newest_first (populate_reviews st b);
               book = \<lparr>doc = b, doc_reviews = Some rs\<rparr>
           in case (case req_user of
                      None \<Rightarrow> Inr None
                    | Some u \<Rightarrow> find_userReview same_id (users st) (u_id u) rs) of
                Inl e \<Rightarrow> Inl e
              | Inr found \<Rightarrow>
                  Inr \<lparr>data_book = book, ratingDistribution = rating_distribution rs,
                       userReview = found\<rparr>))"

definition GET_book ::
  "(string \<Rightarrow> jwt_result) \<Rightarrow> (objectId \<Rightarrow> objectId \<Rightarrow> bool) \<Rightarrow> store \<Rightarrow> string option
     \<Rightarrow> objectId \<Rightarrow> failure + book_data" where
  "GET_book verify same_id st authorization bid =
     (case auth verify st authorization of
        Inl e \<Rightarrow> Inl e
      | Inr u \<Rightarrow> getBook same_id st (Some u) bid)"

subsection \<open>GET /api/books/:id/similar\<close>

definition similar_to :: "objectId \<Rightarrow> book \<Rightarrow> book \<Rightarrow> bool" where
  "similar_to bid book x =
     (b_id x \<noteq> bid \<and> b_isActive x
      \<and> (genre x = genre book \<or> author x = author book
          \<or> list_ex (\<lambda>t. List.member (tags book) t) (tags x)))"

definition GET_similar :: "store \<Rightarrow> objectId \<Rightarrow> failure + book_doc list" where
  "GET_similar st bid =
     (case find (\<lambda>b. b_id b = bid) (books st) of
        None \<Rightarrow> Inl (Status 404 ''Book not found'')
      | Some book \<Rightarrow>
          Inr (map (hydrate st)
                 (take 6
                    (sort_by (\<lambda>a b. b_createdAt b \<le> b_createdAt a)
                       (filter (similar_to bid book) (books st))))))"

section \<open>Request validation\<close>

text \<open>
  The \<open>express-validator\<close> chains of \<open>validateBook\<close> and \<open>validateReview\<close>. A chain's
  \<open>trim()\<close> sanitises the field in the request body, so the handler sees the trimmed
  value. A body is the record of the fields a handler or the schema reads; a required
  string that is missing is the empty string to the validator. Any failure is answered
  by \<open>handleValidationErrors\<close> with status 400. Strings are ASCII here, so \<open>length\<close>
  counts what JavaScript counts. \<open>year\<close> is \<open>new Date().getFullYear()\<close>.
\<close>

definition GENRES :: "string list" where
  "GENRES =
     [''Fiction'', ''Non-Fiction'', ''Mystery'', ''Romance'', ''Sci-Fi'', ''Fantasy'',
      ''Thriller'', ''Biography'', ''History'', ''Self-Help'', ''Business'',
      ''Technology'', ''Health'', ''Travel'', ''Cooking'', ''Art'', ''Religion'',
      ''Philosophy'', ''Poetry'', ''Drama'', ''Horror'', ''Adventure'', ''Crime'',
      ''Young Adult'', ''Children'', ''Comics'', ''Other'']"

definition is_space :: "char \<Rightarrow> bool" where
  "is_space c = List.member [CHR '' '', CHR 0x09, CHR 0x0A, CHR 0x0B, CHR 0x0C, CHR 0x0D] c"

definition trim :: "string \<Rightarrow> string" where
  "trim s = rev (dropWhile is_space (rev (dropWhile is_space s)))"

record book_body =
  bb_title :: string
  bb_author :: string
  bb_description :: string
  bb_genre :: string
  bb_publishedYear :: int
  bb_tags :: "string list option"
  bb_addedBy :: "objectId option"
  bb_isActive :: "bool option"

definition validateBook :: "int \<Rightarrow> book_body \<Rightarrow> failure + book_body" where
  "validateBook year body =
     (let t = trim (bb_title body); a = trim (bb_author body); d = trim (bb_description body)
      in if 1 \<le> length t \<and> length t \<le> 200
            \<and> 1 \<le> length a \<and> length a \<le> 100
            \<and> 10 \<le> length d \<and> length d \<le> 2000
            \<and> List.member GENRES (bb_genre body)
            \<and> 1000 \<le> bb_publishedYear body \<and> bb_publishedYear body \<le> year
         then Inr (body\<lparr>bb_title := t, bb_author := a, bb_description := d\<rparr>)
         else Inl (Status 400 ''Validation failed''))"

record review_body =
  rb_bookId :: objectId
  rb_rating :: int
  rb_reviewText :: string
  rb_title :: "string option"

definition validateReview :: "review_body \<Rightarrow> failure + review_body" where
  "validateReview body =
     (let t = trim (rb_reviewText body); ti = map_option trim (rb_title body)
      in if 1 \<le> rb_rating body \<and> rb_rating body \<le> 5
            \<and> 10 \<le> length t \<and> length t \<le> 2000
            \<and> (case ti of None \<Rightarrow> True | Some x \<Rightarrow> length x \<le> 100)
         then Inr (body\<lparr>rb_reviewText := t, rb_title := ti\<rparr>)
         else Inl (Status 400 ''Validation failed''))"

section \<open>The book routes: writing\<close>

text \<open>
  \<open>save_book\<close> is \<open>book.save()\<close> of a new document and \<open>update_book\<close> the write of
  \<open>findByIdAndUpdate\<close> and of \<open>save()\<close> on a loaded document: it replaces the document
  with that id. The schema's validator on \<open>tags\<close> (each at most 30 characters after the
  \<open>trim\<close> setter) runs on both (\<open>runValidators: true\<close>); the other validated fields have
  passed \<open>validateBook\<close> with the same bounds.
\<close>

definition tags_valid :: "string list \<Rightarrow> bool" where
  "tags_valid ts = list_all (\<lambda>t. length t \<le> 30) ts"

definition update_book :: "store \<Rightarrow> book \<Rightarrow> store" where
  "update_book st b = st\<lparr>books := map (\<lambda>x. if b_id x = b_id b then b else x) (books st)\<rparr>"

definition createBook :: "store \<Rightarrow> user \<Rightarrow> book_body \<Rightarrow> date \<Rightarrow> store \<times> (failure + book)" where
  "createBook st req_user body now =
     (let bookData = body\<lparr>bb_addedBy := Some (u_id req_user)\<rparr>;
          book = \<lparr>b_id = nextId st, title = bb_title bookData, author = bb_author bookData,
                  description = bb_description bookData, genre = bb_genre bookData,
                  publishedYear = bb_publishedYear bookData,
                  addedBy = u_id req_user,
                  tags = (case bb_tags bookData of None \<Rightarrow> [] | Some ts \<Rightarrow> map trim ts),
                  b_isActive = (case bb_isActive bookData of None \<Rightarrow> True | Some a \<Rightarrow> a),
                  b_createdAt = now\<rparr>
      in if tags_valid (tags book)
         then (st\<lparr>books := books st @ [book], nextId := nextId st + 1\<rparr>, Inr book)
         else (st, Inl (Thrown ValidationError)))"

definition findByIdAndUpdate :: "book \<Rightarrow> book_body \<Rightarrow> book" where
  "findByIdAndUpdate b body =
     b\<lparr>title := bb_title body, author := bb_author body, description := bb_description body,
       genre := bb_genre body, publishedYear := bb_publishedYear body,
       tags := (case bb_tags body of None \<Rightarrow> tags b | Some ts \<Rightarrow> map trim ts),
       addedBy := (case bb_addedBy body of None \<Rightarrow> addedBy b | Some u \<Rightarrow> u),
       b_isActive := (case bb_isActive body of None \<Rightarrow> b_isActive b | Some a \<Rightarrow> a)\<rparr>"

definition updateBook :: "store \<Rightarrow> user \<Rightarrow> objectId \<Rightarrow> book_body \<Rightarrow> store \<times> (failure + book)" where
  "updateBook st req_user bid body =
     (case find (\<lambda>b. b_id b = bid \<and> b_isActive b) (books st) of
        None \<Rightarrow> (st, Inl (Status 404 ''Book not found''))
      | Some book \<Rightarrow>
          if addedBy book \<noteq> u_id req_user
          then (st, Inl (Status 403 ''Not authorized to update this book''))
          else (let book' = findByIdAndUpdate book body
                in if tags_valid (tags book')
                   then (update_book st book', Inr book')
                   else (st, Inl (Thrown ValidationError))))"

definition deleteBook :: "store \<Rightarrow> user \<Rightarrow> objectId \<Rightarrow> store \<times> (failure + unit)" where
  "deleteBook st req_user bid =
     (case find (\<lambda>b. b_id b = bid \<and> b_isActive b) (books st) of
        None \<Rightarrow> (st, Inl (Status 404 ''Book not found''))
      | Some book \<Rightarrow>
          if addedBy book \<noteq> u_id req_user
          then (st, Inl (Status 403 ''Not authorized to delete this book''))
          else (let st1 = update_book st (book\<lparr>b_isActive := False\<rparr>);
                    st2 = st1\<lparr>reviews :=
                            map (\<lambda>r. if bookId r = bid then r\<lparr>r_isActive := False\<rparr> else r)
                              (reviews st1)\<rparr>
                in (st2, Inr ())))"

section \<open>The review routes\<close>

text \<open>
  \<open>insert_review\<close> is \<open>review.save()\<close> of a new document under the schema's index
  \<open>{bookId: 1, userId: 1}, {unique: true}\<close>: the store refuses a second document with
  the same pair, whatever the \<open>isActive\<close> of either, and the driver's duplicate-key
  error leaves the handler. \<open>save_review\<close> is \<open>save()\<close> on a loaded document.
  The \<open>pre('save')\<close> hook stamps \<open>editedAt\<close> when \<open>reviewText\<close> or \<open>rating\<close> is
  modified, which they are on a new document.
\<close>

definition same_pair :: "review \<Rightarrow> review \<Rightarrow> bool" where
  "same_pair r x = (bookId x = bookId r \<and> userId x = userId r)"

definition insert_review :: "store \<Rightarrow> review \<Rightarrow> exn + store" where
  "insert_review st r =
     (if list_ex (same_pair r) (reviews st) then Inl DuplicateKey
      else Inr (st\<lparr>reviews := reviews st @ [r], nextId := nextId st + 1\<rparr>))"

definition save_review :: "store \<Rightarrow> review \<Rightarrow> store" where
  "save_review st r =
     st\<lparr>reviews := map (\<lambda>x. if r_id x = r_id r then r else x) (reviews st)\<rparr>"

definition createReview ::
  "store \<Rightarrow> user \<Rightarrow> review_body \<Rightarrow> date \<Rightarrow> store \<times> (failure + review)" where
  "createReview st req_user body now =
     (case find (\<lambda>b. b_id b = rb_bookId body \<and> b_isActive b) (books st) of
        None \<Rightarrow> (st, Inl (Status 404 ''Book not found''))
      | Some book \<Rightarrow>
          (case find (\<lambda>r. bookId r = rb_bookId body \<and> userId r = u_id req_user \<and> r_isActive r)
                  (reviews st) of
             Some existingReview \<Rightarrow> (st, Inl (Status 400 ''You have already reviewed this book''))
           | None \<Rightarrow>
               (let review = \<lparr>r_id = nextId st, bookId = rb_bookId body, userId = u_id req_user,
                               rating = rb_rating body, reviewText = rb_reviewText body,
                               r_title = rb_title body, likes = [], r_isActive = True,
                               editedAt = Some now, r_createdAt = now\<rparr>
                in case insert_review st review of
                     Inl e \<Rightarrow> (st, Inl (Thrown e))
                   | Inr st' \<Rightarrow> (st', Inr review))))"

definition updateReview ::
  "store \<Rightarrow> user \<Rightarrow> objectId \<Rightarrow> review_body \<Rightarrow> date \<Rightarrow> store \<times> (failure + review)" where
  "updateReview st req_user rid body now =
     (case find (\<lambda>r. r_id r = rid \<and> r_isActive r) (reviews st) of
        None \<Rightarrow> (st, Inl (Status 404 ''Review not found''))
      | Some review \<Rightarrow>
          if userId review \<noteq> u_id req_user
          then (st, Inl (Status 403 ''Not authorized to update this review''))
          else (let modified = (rating review \<noteq> rb_rating body
                                \<or> reviewText review \<noteq> rb_reviewText body);
                    review' = review\<lparr>rating := rb_rating body,
                                reviewText := rb_reviewText body,
                                r_title := (case rb_title body of
                                              None \<Rightarrow> r_title review
                                            | Some t \<Rightarrow> Some t),
                                editedAt := (if modified then Some now else editedAt review)\<rparr>
                in (save_review st review', Inr review')))"

definition deleteReview :: "store \<Rightarrow> user \<Rightarrow> objectId \<Rightarrow> store \<times> (failure + unit)" where
  "deleteReview st req_user rid =
     (case find (\<lambda>r. r_id r = rid \<and> r_isActive r) (reviews st) of
        None \<Rightarrow> (st, Inl (Status 404 ''Review not found''))
      | Some review \<Rightarrow>
          if userId review \<noteq> u_id req_user
          then (st, Inl (Status 403 ''Not authorized to delete this review''))
          else (save_review st (review\<lparr>r_isActive := False\<rparr>), Inr ()))"

subsection \<open>POST /api/reviews/:id/like\<close>

fun indexOf :: "'a list \<Rightarrow> 'a \<Rightarrow> int" where
  "indexOf [] x = - 1"
| "indexOf (y # ys) x =
     (if y = x then 0 else (let i = indexOf ys x in if i = - 1 then - 1 else i + 1))"

definition splice1 :: "int \<Rightarrow> 'a list \<Rightarrow> 'a list" where
  "splice1 i xs = take (nat i) xs @ drop (nat i + 1) xs"

definition likeCount :: "review \<Rightarrow> nat" where
  "likeCount r = length (likes r)"

record like_data =
  data_likes :: nat
  isLiked :: bool

definition toggleLike :: "store \<Rightarrow> user \<Rightarrow> objectId \<Rightarrow> store \<times> (failure + like_data)" where
  "toggleLike st req_user rid =
     (case find (\<lambda>r. r_id r = rid \<and> r_isActive r) (reviews st) of
        None \<Rightarrow> (st, Inl (Status 404 ''Review not found''))
      | Some review \<Rightarrow>
          (let uid = u_id req_user;
               likeIndex = indexOf (likes review) uid;
               likes' = (if - 1 < likeIndex then splice1 likeIndex (likes review)
                         else likes review @ [uid]);
               review' = review\<lparr>likes := likes'\<rparr>
           in (save_review st review',
               Inr \<lparr>data_likes = length likes', isLiked = (likeIndex = - 1)\<rparr>)))"

section \<open>Signup and the requests that change the store\<close>

text \<open>
  \<open>signup\<close> is the handler of POST /api/auth/signup after \<open>validateSignup\<close>; the
  password plays no part here. \<open>updateProfile\<close> is the handler of PUT /api/auth/profile,
  of whose fields the model has the name (\<open>user!.name\<close> throws if the user is gone). A request that changes the store passes the middleware
  of its route in order (\<open>auth\<close>, then the validator, then the handler); \<open>handle\<close> keeps
  the store it leaves behind. The seeding routine inserts through the same
  \<open>save()\<close> calls as signup, \<open>createBook\<close> and \<open>createReview\<close>.
\<close>

definition signup :: "store \<Rightarrow> string \<Rightarrow> string \<Rightarrow> store \<times> (failure + user)" where
  "signup st name email =
     (case find (\<lambda>u. u_email u = email) (users st) of
        Some existingUser \<Rightarrow> (st, Inl (Status 400 ''User already exists with this email''))
      | None \<Rightarrow>
          (let user = \<lparr>u_id = nextId st, u_name = name, u_email = email, u_isActive = True\<rparr>
           in (st\<lparr>users := users st @ [user], nextId := nextId st + 1\<rparr>, Inr user)))"

definition updateProfile :: "store \<Rightarrow> user \<Rightarrow> string option \<Rightarrow> store \<times> (failure + user)" where
  "updateProfile st req_user name =
     (case find (\<lambda>u. u_id u = u_id req_user) (users st) of
        None \<Rightarrow> (st, Inl (Thrown TypeError))
      | Some user \<Rightarrow>
          (let user' = (case name of
                          None \<Rightarrow> user
                        | Some n \<Rightarrow> if n = [] then user else user\<lparr>u_name := n\<rparr>)
           in (st\<lparr>users := map (\<lambda>x. if u_id x = u_id user' then user' else x) (users st)\<rparr>,
               Inr user')))"

datatype request =
    Signup string string
  | PutProfile "string option" "string option"
  | PostBook "string option" int book_body date
  | PutBook "string option" int objectId book_body
  | DeleteBook "string option" objectId
  | PostReview "string option" review_body date
  | PutReview "string option" objectId review_body date
  | DeleteReview "string option" objectId
  | LikeReview "string option" objectId

fun handle :: "(string \<Rightarrow> jwt_result) \<Rightarrow> store \<Rightarrow> request \<Rightarrow> store" where
  "handle verify st (Signup name email) = fst (signup st name email)"
| "handle verify st (PutProfile authorization name) =
     (case auth verify st authorization of
        Inl e \<Rightarrow> st
      | Inr u \<Rightarrow> fst (updateProfile st u name))"
| "handle verify st (PostBook authorization year body now) =
     (case auth verify st authorization of
        Inl e \<Rightarrow> st
      | Inr u \<Rightarrow> (case validateBook year body of
                    Inl e \<Rightarrow> st
                  | Inr body' \<Rightarrow> fst (createBook st u body' now)))"
| "handle verify st (PutBook authorization year bid body) =
     (case auth verify st authorization of
        Inl e \<Rightarrow> st
      | Inr u \<Rightarrow> (case validateBook year body of
                    Inl e \<Rightarrow> st
                  | Inr body' \<Rightarrow> fst (updateBook st u bid body')))"
| "handle verify st (DeleteBook authorization bid) =
     (case auth verify st authorization of
        Inl e \<Rightarrow> st
      | Inr u \<Rightarrow> fst (deleteBook st u bid))"
| "handle verify st (PostReview authorization body now) =
     (case auth verify st authorization of
        Inl e \<Rightarrow> st
      | Inr u \<Rightarrow> (case validateReview body of
                    Inl e \<Rightarrow> st
                  | Inr body' \<Rightarrow> fst (createReview st u body' now)))"
| "handle verify st (PutReview authorization rid body now) =
     (case auth verify st authorization of
        Inl e \<Rightarrow> st
      | Inr u \<Rightarrow> (case validateReview body of
                    Inl e \<Rightarrow> st
                  | Inr body' \<Rightarrow> fst (updateReview st u rid body' now)))"
| "handle verify st (DeleteReview authorization rid) =
     (case auth verify st authorization of
        Inl e \<Rightarrow> st
      | Inr u \<Rightarrow> fst (deleteReview st u rid))"
| "handle verify st (LikeReview authorization rid) =
     (case auth verify st authorization of
        Inl e \<Rightarrow> st
      | Inr u \<Rightarrow> fst (toggleLike st u rid))"

definition empty_store :: store where
  "empty_store = \<lparr>users = [], books = [], reviews = [], nextId = 0\<rparr>"

inductive reachable :: "(string \<Rightarrow> jwt_result) \<Rightarrow> store \<Rightarrow> bool" for verify where
  reachable_empty: "reachable verify empty_store"
| reachable_handle: "reachable verify st \<Longrightarrow> reachable verify (handle verify st req)"

definition run :: "(string \<Rightarrow> jwt_result) \<Rightarrow> request list \<Rightarrow> store" where
  "run verify reqs = foldl (handle verify) empty_store reqs"

section \<open>Notions the results are stated with\<close>

text \<open>
  \<open>rating_key\<close> is the key by which the comparator of the in-memory rating sort orders
  ascending. \<open>pair_of\<close> is the pair the unique index is on, \<open>key_of\<close> adds the id.
  \<open>store_ok\<close> collects what every write keeps true of the reviews: ids are distinct
  and below the next fresh id, no liker is listed twice, and no pair occurs twice.
  \<open>like_view\<close> is a review seen up to the order of its likers.
\<close>

definition rating_key :: "string \<Rightarrow> book_doc \<Rightarrow> rat" where
  "rating_key sortOrder d = (if sortOrder = ''desc'' then averageRating d else - averageRating d)"

definition pair_of :: "review \<Rightarrow> objectId \<times> objectId" where
  "pair_of r = (bookId r, userId r)"

definition key_of :: "review \<Rightarrow> objectId \<times> objectId \<times> objectId" where
  "key_of r = (r_id r, bookId r, userId r)"

definition store_ok :: "store \<Rightarrow> bool" where
  "store_ok st =
     (distinct (map r_id (reviews st))
      \<and> list_all (\<lambda>r. r_id r < nextId st) (reviews st)
      \<and> list_all (\<lambda>r. distinct (likes r)) (reviews st)
      \<and> distinct (map pair_of (reviews st)))"

definition like_view :: "review \<Rightarrow> review \<times> objectId set \<times> nat" where
  "like_view r = (r\<lparr>likes := []\<rparr>, set (likes r), likeCount r)"

text \<open>
  \<open>keeps st st'\<close>: the later store \<open>st'\<close> is in order, and it still holds every review
  record of \<open>st\<close>, in place, under the same id and the same pair.
\<close>

definition keeps :: "store \<Rightarrow> store \<Rightarrow> bool" where
  "keeps st st' =
     (store_ok st' \<and> nextId st \<le> nextId st'
      \<and> take (length (reviews st)) (map key_of (reviews st')) = map key_of (reviews st))"

section \<open>Concrete histories\<close>

text \<open>
  Two users sign up (Ann gets id 0, Bob id 1) and Ann adds a book (id 2). Every store
  below is what a sequence of requests leaves behind, starting from the empty store.
\<close>

definition verify0 :: "string \<Rightarrow> jwt_result" where
  "verify0 t =
     (if t = ''ann'' then Payload 0 else if t = ''bob'' then Payload 1 else JsonWebTokenError)"

definition ann :: user where
  "ann = \<lparr>u_id = 0, u_name = ''Ann'', u_email = ''ann@x.com'', u_isActive = True\<rparr>"

definition bob :: user where
  "bob = \<lparr>u_id = 1, u_name = ''Bob'', u_email = ''bob@x.com'', u_isActive = True\<rparr>"

definition dune :: book_body where
  "dune = \<lparr>bb_title = ''Dune'', bb_author = ''Frank Herbert'',
            bb_description = ''A desert planet saga'', bb_genre = ''Sci-Fi'',
            bb_publishedYear = 1965, bb_tags = None, bb_addedBy = None, bb_isActive = None\<rparr>"

definition foundation :: book_body where
  "foundation = \<lparr>bb_title = ''Foundation'', bb_author = ''Isaac Asimov'',
                  bb_description = ''The fall of an empire'', bb_genre = ''Sci-Fi'',
                  bb_publishedYear = 1951, bb_tags = None, bb_addedBy = None,
                  bb_isActive = None\<rparr>"

definition opinion :: "objectId \<Rightarrow> int \<Rightarrow> review_body" where
  "opinion bid stars = \<lparr>rb_bookId = bid, rb_rating = stars,
                         rb_reviewText = ''Worth every page'', rb_title = None\<rparr>"

definition all_books :: book_query where
  "all_books = \<lparr>q_page = 1, q_limit = 2, q_search = None, q_genre = None,
                 q_sortBy = SortCreatedAt, q_sortOrder = ''desc'', q_minYear = None,
                 q_maxYear = None, q_minRating = None, q_author = None\<rparr>"

definition rated_3 :: book_query where
  "rated_3 = all_books\<lparr>q_minRating := Some 3\<rparr>"

definition by_rating :: "string \<Rightarrow> book_query" where
  "by_rating sortOrder = all_books\<lparr>q_sortBy := SortAverageRating, q_sortOrder := sortOrder\<rparr>"

definition no_match :: "string \<Rightarrow> string \<Rightarrow> bool" where
  "no_match pattern subject = False"

definition h_base :: "request list" where
  "h_base = [Signup ''Ann'' ''ann@x.com'', Signup ''Bob'' ''bob@x.com'',
             PostBook (Some ''Bearer ann'') 2025 dune 10]"

definition st_base :: store where
  "st_base = run verify0 h_base"

definition st_deleted_review :: store where
  "st_deleted_review =
     run verify0 (h_base @ [PostReview (Some ''Bearer bob'') (opinion 2 5) 20,
                            DeleteReview (Some ''Bearer bob'') 3])"

definition st_mixed :: store where
  "st_mixed =
     run verify0 (h_base @ [PostReview (Some ''Bearer bob'') (opinion 2 5) 20,
                            DeleteReview (Some ''Bearer bob'') 3,
                            PostReview (Some ''Bearer ann'') (opinion 2 1) 30])"

definition st_tombstone :: store where
  "st_tombstone =
     run verify0 (h_base @ [PostBook (Some ''Bearer ann'') 2025 foundation 11,
                            DeleteBook (Some ''Bearer ann'') 3])"

definition st_rated :: store where
  "st_rated =
     run verify0 (h_base @ [PostBook (Some ''Bearer ann'') 2025 foundation 11,
                            PostReview (Some ''Bearer bob'') (opinion 2 2) 20,
                            PostReview (Some ''Bearer bob'') (opinion 3 5) 21,
                            LikeReview (Some ''Bearer bob'') 4])"

section \<open>Sorting and paging lemmas\<close>

lemma insert_by_insort_key:
  "insert_by (\<lambda>a b. f a \<le> f b) x ys = insort_key f x ys"
  by (induction ys) simp_all

lemma sort_by_sort_key: "sort_by (\<lambda>a b. f a \<le> f b) xs = sort_key f xs"
  by (induction xs) (simp_all add: sort_by_def insert_by_insort_key)

lemma length_insert_by: "length (insert_by le x ys) = Suc (length ys)"
  by (induction ys) simp_all

lemma length_sort_by: "length (sort_by le xs) = length xs"
  by (induction xs) (simp_all add: sort_by_def length_insert_by)

lemma set_insert_by: "set (insert_by le x ys) = insert x (set ys)"
  by (induction ys) auto

lemma set_sort_by: "set (sort_by le xs) = set xs"
  by (induction xs) (simp_all add: sort_by_def set_insert_by)

lemma array_sort_rating:
  "array_sort (rating_compare so) xs = sort_key (rating_key so) xs"
proof -
  have "(\<lambda>a b. rating_compare so a b \<le> 0) = (\<lambda>a b. rating_key so a \<le> rating_key so b)"
    by (intro ext) (simp add: rating_compare_def rating_key_def)
  then show ?thesis
    by (simp add: array_sort_def sort_by_sort_key)
qed

lemma book_matches_minRating [simp]:
  "book_matches rx (q\<lparr>q_minRating := x\<rparr>) = book_matches rx q"
  by (intro ext) (simp add: book_matches_def)

lemma find_books_minRating [simp]:
  "find_books rx st (q\<lparr>q_minRating := x\<rparr>) = find_books rx st q"
  by (simp add: find_books_def)

lemma countDocuments_minRating [simp]:
  "countDocuments rx st (q\<lparr>q_minRating := x\<rparr>) = countDocuments rx st q"
  by (simp add: countDocuments_def)

lemma length_find_books:
  "length (find_books rx st q) =
     min (q_limit q) (countDocuments rx st q - (q_page q - 1) * q_limit q)"
  by (simp add: find_books_def countDocuments_def length_sort_by)

lemma ceiling_div_nat:
  assumes "0 < (n::nat)"
  shows "nat \<lceil>(of_nat t :: rat) / of_nat n\<rceil> = (t + n - 1) div n"
proof -
  define z where "z = (t + n - 1) div n"
  have split: "z * n + (t + n - 1) mod n = t + n - 1"
    unfolding z_def by simp
  have "(t + n - 1) mod n < n"
    using assms by simp
  with split assms have up: "t \<le> z * n"
    by linarith
  from split assms have lo: "z * n < t + n"
    by linarith
  have "(of_nat t :: rat) \<le> of_nat (z * n)"
    using up by (simp only: of_nat_le_iff)
  then have le: "(of_nat t :: rat) / of_nat n \<le> of_int (int z)"
    using assms by (simp add: field_simps)
  have "(of_nat (z * n) :: rat) < of_nat (t + n)"
    using lo by (simp only: of_nat_less_iff)
  then have gt: "of_int (int z) - 1 < (of_nat t :: rat) / of_nat n"
    using assms by (simp add: field_simps)
  have "\<lceil>(of_nat t :: rat) / of_nat n\<rceil> = int z"
    using gt le by (rule ceiling_unique)
  then show ?thesis
    by (simp add: z_def)
qed

lemma data_books_listBooks:
  "data_books (listBooks rx st q) =
     (let kept = (case q_minRating q of
                    None \<Rightarrow> find_books rx st q
                  | Some m \<Rightarrow> filter (\<lambda>b. m \<le> averageRating b) (find_books rx st q))
      in if q_sortBy q = SortAverageRating
         then sort_key (rating_key (q_sortOrder q)) kept else kept)"
  by (simp add: listBooks_def Let_def array_sort_rating)

lemma data_pagination_listBooks:
  "data_pagination (listBooks rx st q) =
     (let total = countDocuments rx st q;
          pages = nat \<lceil>(of_nat total :: rat) / of_nat (q_limit q)\<rceil>
      in \<lparr>currentPage = q_page q, totalPages = pages, totalBooks = total,
          hasNextPage = (q_page q < pages), hasPrevPage = (1 < q_page q)\<rparr>)"
  by (simp add: listBooks_def Let_def)


section \<open>What every write keeps of the reviews\<close>

lemma indexOf_absent: "x \<notin> set xs \<Longrightarrow> indexOf xs x = - 1"
  by (induction xs) auto

lemma indexOf_present: "x \<in> set xs \<Longrightarrow> 0 \<le> indexOf xs x \<and> nat (indexOf xs x) < length xs"
  by (induction xs) (auto simp: Let_def)

lemma splice1_indexOf: "x \<in> set xs \<Longrightarrow> splice1 (indexOf xs x) xs = remove1 x xs"
proof (induction xs)
  case Nil
  then show ?case by simp
next
  case (Cons y ys)
  show ?case
  proof (cases "y = x")
    case True
    then show ?thesis by (simp add: splice1_def)
  next
    case False
    with Cons.prems have mem: "x \<in> set ys" by simp
    from indexOf_present [OF mem] have nonneg: "0 \<le> indexOf ys x" by simp
    then have "nat (indexOf ys x + 1) = Suc (nat (indexOf ys x))" by simp
    with False nonneg Cons.IH [OF mem] show ?thesis
      by (simp add: splice1_def Let_def)
  qed
qed

lemma indexOf_snoc: "x \<notin> set xs \<Longrightarrow> indexOf (xs @ [x]) x = int (length xs)"
  by (induction xs) (auto simp: Let_def)

lemma splice1_snoc: "splice1 (int (length xs)) (xs @ [x]) = xs"
  by (simp add: splice1_def)

lemma find_Some_mem: "find p xs = Some x \<Longrightarrow> x \<in> set xs \<and> p x"
  by (induction xs) (auto split: if_splits)

lemma distinct_ids_eq:
  assumes "distinct (map r_id rs)" and "r \<in> set rs" and "x \<in> set rs" and "r_id x = r_id r"
  shows "x = r"
  using assms by (meson distinct_map inj_onD)

lemma map_replace_same:
  assumes "distinct (map r_id rs)" and "r \<in> set rs"
  shows "map (\<lambda>x. if r_id x = r_id r then r else x) rs = rs"
proof -
  have "\<And>x. x \<in> set rs \<Longrightarrow> (if r_id x = r_id r then r else x) = x"
    using assms distinct_ids_eq by fastforce
  then show ?thesis by (simp add: map_idI)
qed

lemma map_replace_view:
  assumes "distinct (map r_id rs)" and "r \<in> set rs" and "r_id r' = r_id r" and "f r' = f r"
  shows "map f (map (\<lambda>x. if r_id x = r_id r' then r' else x) rs) = map f rs"
proof -
  have "\<And>x. x \<in> set rs \<Longrightarrow> f (if r_id x = r_id r' then r' else x) = f x"
    using assms distinct_ids_eq by fastforce
  then show ?thesis by simp
qed

lemma find_replaced:
  assumes "r \<in> set rs" and "r_id r' = r_id r" and "r_isActive r'"
  shows "find (\<lambda>x. r_id x = r_id r \<and> r_isActive x) (map (\<lambda>x. if r_id x = r_id r' then r' else x) rs)
         = Some r'"
  using assms(1)
proof (induction rs)
  case Nil
  then show ?case by simp
next
  case (Cons y ys)
  then show ?case using assms(2,3) by auto
qed


lemma keeps_refl: "store_ok st \<Longrightarrow> keeps st st"
  by (simp add: keeps_def)

lemma keeps_save:
  assumes ok: "store_ok st" and mem: "r \<in> set (reviews st)" and key: "key_of r' = key_of r"
    and dl: "distinct (likes r')"
  shows "keeps st (save_review st r')"
proof -
  from ok have di: "distinct (map r_id (reviews st))"
    by (simp add: store_ok_def)
  from key have id: "r_id r' = r_id r" and pair: "pair_of r' = pair_of r"
    by (simp_all add: key_of_def pair_of_def)
  let ?rs' = "map (\<lambda>x. if r_id x = r_id r' then r' else x) (reviews st)"
  have ids: "map r_id ?rs' = map r_id (reviews st)"
    using di mem id by (rule map_replace_view) (rule id)
  have pairs: "map pair_of ?rs' = map pair_of (reviews st)"
    using di mem id pair by (rule map_replace_view)
  have keys: "map key_of ?rs' = map key_of (reviews st)"
    using di mem id key by (rule map_replace_view)
  have below: "list_all (\<lambda>r. r_id r < nextId st) ?rs'"
    using ok mem id by (auto simp: store_ok_def list_all_iff)
  have likes: "list_all (\<lambda>r. distinct (likes r)) ?rs'"
    using ok dl by (auto simp: store_ok_def list_all_iff)
  have rs: "reviews (save_review st r') = ?rs'" and nx: "nextId (save_review st r') = nextId st"
    by (simp_all add: save_review_def)
  from ok below likes show ?thesis
    unfolding keeps_def store_ok_def rs nx ids pairs keys by simp
qed

lemma keeps_signup: "store_ok st \<Longrightarrow> keeps st (fst (signup st name email))"
  by (auto simp: signup_def keeps_def store_ok_def list_all_iff Let_def split: option.splits)

lemma keeps_updateProfile: "store_ok st \<Longrightarrow> keeps st (fst (updateProfile st u name))"
  by (auto simp: updateProfile_def keeps_def store_ok_def Let_def split: option.splits)

lemma keeps_createBook: "store_ok st \<Longrightarrow> keeps st (fst (createBook st u body now))"
  by (auto simp: createBook_def keeps_def store_ok_def list_all_iff Let_def)

lemma keeps_updateBook: "store_ok st \<Longrightarrow> keeps st (fst (updateBook st u bid body))"
  by (auto simp: updateBook_def update_book_def keeps_def store_ok_def Let_def split: option.splits)

lemma keeps_deleteBook:
  assumes "store_ok st"
  shows "keeps st (fst (deleteBook st u bid))"
proof -
  let ?off = "\<lambda>r. if bookId r = bid then r\<lparr>r_isActive := False\<rparr> else r"
  have maps: "map r_id (map ?off (reviews st)) = map r_id (reviews st)"
      "map pair_of (map ?off (reviews st)) = map pair_of (reviews st)"
      "map key_of (map ?off (reviews st)) = map key_of (reviews st)"
    by (simp_all add: pair_of_def key_of_def)
  have alls: "list_all (\<lambda>r. r_id r < nextId st) (map ?off (reviews st))"
      "list_all (\<lambda>r. distinct (likes r)) (map ?off (reviews st))"
    using assms by (auto simp: store_ok_def list_all_iff)
  have "keeps st (st\<lparr>books := bs, reviews := map ?off (reviews st)\<rparr>)" for bs
    unfolding keeps_def store_ok_def using assms alls
    by (simp add: maps store_ok_def del: map_map)
  with assms show ?thesis
    by (simp add: deleteBook_def update_book_def Let_def keeps_refl split: option.splits)
qed

lemma keeps_createReview:
  assumes "store_ok st"
  shows "keeps st (fst (createReview st u body now))"
proof (cases "snd (createReview st u body now)")
  case (Inl e)
  then have "fst (createReview st u body now) = st"
    by (auto simp: createReview_def insert_review_def Let_def split: option.splits if_splits)
  with assms show ?thesis by (simp add: keeps_refl)
next
  case (Inr r)
  then have new: "fst (createReview st u body now) = st\<lparr>reviews := reviews st @ [r], nextId := nextId st + 1\<rparr>"
    and fresh: "r_id r = nextId st" and no_likes: "likes r = []"
    and unseen: "\<not> list_ex (same_pair r) (reviews st)"
    by (auto simp: createReview_def insert_review_def Let_def split: option.splits if_splits)
  from unseen have "pair_of r \<notin> set (map pair_of (reviews st))"
    by (auto simp: list_ex_iff same_pair_def pair_of_def)
  moreover from assms fresh have "r_id r \<notin> set (map r_id (reviews st))"
    by (auto simp: store_ok_def list_all_iff)
  ultimately show ?thesis
    using assms fresh no_likes by (auto simp: new keeps_def store_ok_def list_all_iff)
qed

lemma keeps_updateReview:
  assumes "store_ok st"
  shows "keeps st (fst (updateReview st u rid body now))"
proof (cases "find (\<lambda>r. r_id r = rid \<and> r_isActive r) (reviews st)")
  case None
  with assms show ?thesis by (simp add: updateReview_def keeps_refl)
next
  case (Some r)
  then have mem: "r \<in> set (reviews st)" by (simp add: find_Some_mem)
  from assms mem have "distinct (likes r)" by (auto simp: store_ok_def list_all_iff)
  with assms mem Some show ?thesis
    by (auto simp: updateReview_def Let_def keeps_refl key_of_def intro!: keeps_save)
qed

lemma keeps_deleteReview:
  assumes "store_ok st"
  shows "keeps st (fst (deleteReview st u rid))"
proof (cases "find (\<lambda>r. r_id r = rid \<and> r_isActive r) (reviews st)")
  case None
  with assms show ?thesis by (simp add: deleteReview_def keeps_refl)
next
  case (Some r)
  then have mem: "r \<in> set (reviews st)" by (simp add: find_Some_mem)
  from assms mem have "distinct (likes r)" by (auto simp: store_ok_def list_all_iff)
  with assms mem Some show ?thesis
    by (auto simp: deleteReview_def Let_def keeps_refl key_of_def intro!: keeps_save)
qed

lemma distinct_toggled:
  assumes "distinct xs"
  shows "distinct (if - 1 < indexOf xs x then splice1 (indexOf xs x) xs else xs @ [x])"
proof (cases "x \<in> set xs")
  case True
  with assms indexOf_present [OF True] show ?thesis
    by (simp add: splice1_indexOf)
next
  case False
  with assms show ?thesis by (simp add: indexOf_absent)
qed

lemma keeps_toggleLike:
  assumes "store_ok st"
  shows "keeps st (fst (toggleLike st u rid))"
proof (cases "find (\<lambda>r. r_id r = rid \<and> r_isActive r) (reviews st)")
  case None
  with assms show ?thesis by (simp add: toggleLike_def keeps_refl)
next
  case (Some r)
  then have mem: "r \<in> set (reviews st)" by (simp add: find_Some_mem)
  from assms mem have "distinct (likes r)" by (auto simp: store_ok_def list_all_iff)
  then have "distinct (if - 1 < indexOf (likes r) (u_id u)
      then splice1 (indexOf (likes r) (u_id u)) (likes r) else likes r @ [u_id u])"
    by (rule distinct_toggled)
  with assms mem Some show ?thesis
    by (auto simp: toggleLike_def Let_def key_of_def intro!: keeps_save)
qed

lemma keeps_handle:
  assumes "store_ok st"
  shows "keeps st (handle verify st req)"
  using assms
  by (cases req)
    (simp_all add: keeps_refl keeps_signup keeps_updateProfile keeps_createBook keeps_updateBook keeps_deleteBook
      keeps_createReview keeps_updateReview keeps_deleteReview keeps_toggleLike
      split: sum.splits)

lemma store_ok_empty: "store_ok empty_store"
  by (simp add: store_ok_def empty_store_def)

lemma reachable_store_ok: "reachable verify st \<Longrightarrow> store_ok st"
proof (induction rule: reachable.induct)
  case reachable_empty
  show ?case by (rule store_ok_empty)
next
  case (reachable_handle st req)
  then show ?case using keeps_handle by (simp add: keeps_def)
qed

lemma reachable_foldl:
  "reachable verify st \<Longrightarrow> reachable verify (foldl (handle verify) st reqs)"
  by (induction reqs arbitrary: st) (simp_all add: reachable_handle)

lemma reachable_run: "reachable verify (run verify reqs)"
  by (simp add: run_def reachable_foldl reachable_empty)

lemma toggleLike_found:
  assumes "find (\<lambda>r. r_id r = rid \<and> r_isActive r) (reviews st) = Some r"
  shows "fst (toggleLike st u rid) =
     save_review st (r\<lparr>likes := (if - 1 < indexOf (likes r) (u_id u)
                                   then splice1 (indexOf (likes r) (u_id u)) (likes r)
                                   else likes r @ [u_id u])\<rparr>)"
  using assms by (simp add: toggleLike_def Let_def)

lemma toggleLike_missing:
  assumes "find (\<lambda>r. r_id r = rid \<and> r_isActive r) (reviews st) = None"
  shows "fst (toggleLike st u rid) = st"
  using assms by (simp add: toggleLike_def)

lemma save_review_fields:
  "users (save_review st r) = users st" "books (save_review st r) = books st"
  "nextId (save_review st r) = nextId st"
  by (simp_all add: save_review_def)

lemma save_review_twice:
  assumes "r_id r1 = r_id r2"
  shows "reviews (save_review (save_review st r1) r2) = reviews (save_review st r2)"
  using assms by (simp add: save_review_def)

lemma find_after_save:
  assumes "find (\<lambda>x. r_id x = rid \<and> r_isActive x) (reviews st) = Some r"
    and "r_id r' = r_id r" and "r_isActive r'"
  shows "find (\<lambda>x. r_id x = rid \<and> r_isActive x) (reviews (save_review st r')) = Some r'"
proof -
  from find_Some_mem [OF assms(1)] have "r \<in> set (reviews st)" and "r_id r = rid"
    by simp_all
  with find_replaced [of r "reviews st" r'] assms(2,3) show ?thesis
    by (simp add: save_review_def)
qed

section \<open>The claims\<close>

subsection \<open>Ratings reported by the book routes\<close>

text \<open>
  Claim C1: on every read path the derived \<open>averageRating\<close> of a Book is the mean of the
  ratings of its active Reviews, rounded to one decimal, and 0 when it has none;
  soft-deleted Reviews never contribute.

  The book routes populate the virtual \<open>reviews\<close> without a match on \<open>isActive\<close>, so
  the virtual averages over deleted reviews too. In \<open>st_mixed\<close> the book has one active
  review (rating 1) and one deleted by its author (rating 5): both the listing and the
  single fetch report 3. In \<open>st_deleted_review\<close> the book has no active review and the
  single fetch reports 5. The statistics of GET /api/reviews/book/:bookId and the
  profile route do match on \<open>isActive\<close>.
\<close>

theorem averageRating_counts_soft_deleted:
  "map_sum id (map averageRating \<circ> data_books)
       (GET_books verify0 no_match st_mixed (Some ''Bearer ann'') all_books) = Inr [3]
   \<and> map_sum id (averageRating \<circ> data_book)
       (GET_book verify0 hydrated_ids st_mixed (Some ''Bearer ann'') 2) = Inr 3
   \<and> map rating (filter r_isActive (reviews st_mixed)) = [1]
   \<and> map_sum id (averageRating \<circ> data_book)
       (GET_book verify0 hydrated_ids st_deleted_review (Some ''Bearer ann'') 2) = Inr 5
   \<and> filter r_isActive (reviews st_deleted_review) = []"
  by code_simp

subsection \<open>Creating a review after deleting one\<close>

text \<open>
  Claim C2: \<open>createReview\<close> fails with DuplicateReview exactly when an active Review of
  the pair (book, author) exists; after the author's previous Review was soft-deleted a
  new one for the same pair succeeds; and a uniqueness violation on insert is surfaced
  as DuplicateReview.

  The handler's own check looks for an active review only, and lets the request through
  when the earlier review is deleted; the insert then meets the unique index, which
  ignores \<open>isActive\<close>. In \<open>st_deleted_review\<close> Bob's only review of the active book 2
  is deleted: his new review is not created, the duplicate-key error leaves the handler
  (no 400 with "You have already reviewed this book" is sent by it), and the store is
  unchanged.
\<close>

theorem createReview_after_soft_delete:
  "createReview st_deleted_review bob (opinion 2 4) 40
       = (st_deleted_review, Inl (Thrown DuplicateKey))
   \<and> handle verify0 st_deleted_review (PostReview (Some ''Bearer bob'') (opinion 2 4) 40)
       = st_deleted_review
   \<and> filter r_isActive (reviews st_deleted_review) = []
   \<and> map (\<lambda>b. (b_id b, b_isActive b)) (books st_deleted_review) = [(2, True)]
   \<and> auth verify0 st_deleted_review (Some ''Bearer bob'') = Inr bob"
  by code_simp

subsection \<open>The owner of a book\<close>

text \<open>
  Claim C3: whatever fields an update supplies, \<open>addedBy\<close> after \<open>updateBook\<close> is the
  owner set at creation.

  POST /api/books overwrites any \<open>addedBy\<close> of the body with the caller's id; PUT
  /api/books/:id hands the body to \<open>findByIdAndUpdate\<close> as it is, and \<open>validateBook\<close>
  neither rejects nor removes the field. Ann owns book 2; her update with
  \<open>addedBy\<close> set to Bob's id passes validation and makes Bob the owner.
\<close>

theorem updateBook_changes_owner:
  "map (\<lambda>b. (b_id b, addedBy b)) (books st_base) = [(2, 0)]
   \<and> map (\<lambda>b. (b_id b, addedBy b))
         (books (handle verify0 st_base
            (PutBook (Some ''Bearer ann'') 2025 2 (dune\<lparr>bb_addedBy := Some 1\<rparr>)))) = [(2, 1)]
   \<and> validateBook 2025 (dune\<lparr>bb_addedBy := Some 1\<rparr>) = Inr (dune\<lparr>bb_addedBy := Some 1\<rparr>)"
  by code_simp

subsection \<open>Reading books without a credential\<close>

text \<open>
  Claim C4: GET /api/books and GET /api/books/:id succeed for a caller that presents no
  credential or an invalid one.

  Both routes are documented \<open>@access Public\<close> and their handlers allow for a missing
  \<open>req.user\<close>, but both are mounted behind \<open>auth\<close>: with no Authorization header, and
  with a token that \<open>jwt.verify\<close> rejects, the answer is 401 whatever the store and the
  query are.
\<close>

theorem book_reads_require_token:
  "GET_books verify rx st None q = Inl (Status 401 ''Access denied. No token provided.'')
   \<and> GET_book verify same_id st None bid
       = Inl (Status 401 ''Access denied. No token provided.'')
   \<and> GET_books verify0 rx st (Some ''Bearer forged'') q = Inl (Status 401 ''Invalid token.'')
   \<and> GET_book verify0 same_id st (Some ''Bearer forged'') bid
       = Inl (Status 401 ''Invalid token.'')"
  by (simp add: GET_books_def GET_book_def auth_def verify0_def)

subsection \<open>Soft-deleted books and the similar-books route\<close>

text \<open>
  Claim C5: on every read path a soft-deleted entity gives the same observable result as
  an absent one.

  GET /api/books/:id/similar loads the target with \<open>findById\<close>, with no condition on
  \<open>isActive\<close> (GET /api/books/:id has it). \<open>st_tombstone\<close> and \<open>st_base\<close> hold the same
  users, reviews and active books; the former also holds book 3, soft-deleted. Asked
  for the books similar to book 3, the former answers with a list and the latter with
  404.
\<close>

theorem similar_books_sees_tombstone:
  "map_sum id (map (title \<circ> doc)) (GET_similar st_tombstone 3) = Inr [''Dune'']
   \<and> GET_similar st_base 3 = Inl (Status 404 ''Book not found'')
   \<and> map (\<lambda>b. (b_id b, b_isActive b)) (books st_tombstone) = [(2, True), (3, False)]
   \<and> filter b_isActive (books st_tombstone) = books st_base
   \<and> users st_tombstone = users st_base \<and> reviews st_tombstone = reviews st_base"
  by code_simp

subsection \<open>The rating filter of the listing\<close>

text \<open>
  Claim C6: with a \<open>minRating\<close> filter the rating test is applied to the items of the
  page already fetched (after skip and limit), so fewer than \<open>limit\<close> items may come
  back, while \<open>totalBooks\<close> and \<open>totalPages = ceil(totalBooks / limit)\<close> count the books
  matching every predicate but \<open>minRating\<close>.

  For a request with \<open>minRating = m\<close> and positive page and limit: the items returned are those
  items of the answer to the same request without \<open>minRating\<close> whose average is at
  least \<open>m\<close>, in the same order; that answer has exactly the books of the fetched page,
  which is cut by skip and limit from the sorted books that match the other predicates
  and whose length is fixed by limit, skip and the count before any rating test; the
  pagination is the one of the request without \<open>minRating\<close>; and \<open>totalPages\<close> is the
  ceiling of \<open>totalBooks / limit\<close>.
\<close>

theorem listBooks_minRating:
  assumes "q_minRating q = Some m" and "0 < q_limit q" and "0 < q_page q"
  shows "data_books (listBooks rx st q) =
           filter (\<lambda>d. m \<le> averageRating d) (data_books (listBooks rx st (q\<lparr>q_minRating := None\<rparr>)))
       \<and> set (data_books (listBooks rx st (q\<lparr>q_minRating := None\<rparr>))) = set (find_books rx st q)
       \<and> map doc (find_books rx st q) =
           take (q_limit q)
             (drop ((q_page q - 1) * q_limit q)
                (sort_by (sort_spec (q_sortBy q) (q_sortOrder q))
                   (filter (book_matches rx (q\<lparr>q_minRating := None\<rparr>)) (books st))))
       \<and> length (data_books (listBooks rx st (q\<lparr>q_minRating := None\<rparr>))) =
           min (q_limit q) (countDocuments rx st q - (q_page q - 1) * q_limit q)
       \<and> length (data_books (listBooks rx st q)) \<le> q_limit q
       \<and> data_pagination (listBooks rx st q) = data_pagination (listBooks rx st (q\<lparr>q_minRating := None\<rparr>))
       \<and> totalBooks (data_pagination (listBooks rx st q)) =
           length (filter (book_matches rx (q\<lparr>q_minRating := None\<rparr>)) (books st))
       \<and> totalPages (data_pagination (listBooks rx st q)) =
           (totalBooks (data_pagination (listBooks rx st q)) + q_limit q - 1) div q_limit q"
proof -
  let ?q0 = "q\<lparr>q_minRating := None\<rparr>"
  let ?P = "\<lambda>d. m \<le> averageRating d"
  have page0: "data_books (listBooks rx st ?q0) =
      (if q_sortBy q = SortAverageRating
       then sort_key (rating_key (q_sortOrder q)) (find_books rx st q) else find_books rx st q)"
    by (simp add: data_books_listBooks Let_def)
  have items: "data_books (listBooks rx st q) = filter ?P (data_books (listBooks rx st ?q0))"
    using assms(1) by (simp add: data_books_listBooks Let_def filter_sort)
  have same_set: "set (data_books (listBooks rx st ?q0)) = set (find_books rx st q)"
    by (simp add: page0)
  have fetched: "map doc (find_books rx st q) =
      take (q_limit q)
        (drop ((q_page q - 1) * q_limit q)
           (sort_by (sort_spec (q_sortBy q) (q_sortOrder q))
              (filter (book_matches rx ?q0) (books st))))"
    by (simp add: find_books_def hydrate_def comp_def)
  have full: "length (data_books (listBooks rx st ?q0)) =
      min (q_limit q) (countDocuments rx st q - (q_page q - 1) * q_limit q)"
    by (simp add: page0 length_find_books)
  have "length (data_books (listBooks rx st q)) \<le> length (data_books (listBooks rx st ?q0))"
    by (simp only: items length_filter_le)
  with full have short: "length (data_books (listBooks rx st q)) \<le> q_limit q"
    by simp
  have pag: "data_pagination (listBooks rx st q) = data_pagination (listBooks rx st ?q0)"
    by (simp add: data_pagination_listBooks)
  have total: "totalBooks (data_pagination (listBooks rx st q)) =
      length (filter (book_matches rx ?q0) (books st))"
    by (simp add: data_pagination_listBooks Let_def countDocuments_def)
  have pages: "totalPages (data_pagination (listBooks rx st q)) =
      (totalBooks (data_pagination (listBooks rx st q)) + q_limit q - 1) div q_limit q"
    using assms(2) by (simp add: data_pagination_listBooks Let_def ceiling_div_nat)
  from items same_set fetched full short pag total pages show ?thesis
    by blast
qed

text \<open>
  In \<open>st_rated\<close>, with limit 2, the fetched page is full (two books) and one of them is
  returned with \<open>minRating = 3\<close>; \<open>totalBooks\<close> stays 2.
\<close>

theorem listBooks_minRating_witness:
  "q_minRating rated_3 = Some 3 \<and> 0 < q_limit rated_3 \<and> 0 < q_page rated_3
   \<and> data_books (listBooks no_match st_rated rated_3) =
        filter (\<lambda>d. 3 \<le> averageRating d)
          (data_books (listBooks no_match st_rated (rated_3\<lparr>q_minRating := None\<rparr>)))
   \<and> map (title \<circ> doc) (data_books (listBooks no_match st_rated (rated_3\<lparr>q_minRating := None\<rparr>)))
        = [''Foundation'', ''Dune'']
   \<and> map (title \<circ> doc) (data_books (listBooks no_match st_rated rated_3)) = [''Foundation'']
   \<and> q_limit rated_3 = 2
   \<and> totalBooks (data_pagination (listBooks no_match st_rated rated_3)) = 2
   \<and> totalPages (data_pagination (listBooks no_match st_rated rated_3)) = 1"
proof -
  have h1: "q_minRating rated_3 = Some 3"
    by (simp add: rated_3_def)
  have h2: "0 < q_limit rated_3"
    by (simp add: rated_3_def all_books_def)
  have h3: "0 < q_page rated_3"
    by (simp add: rated_3_def all_books_def)
  note inst = listBooks_minRating [OF h1 h2 h3, of no_match st_rated]
  have page: "map (title \<circ> doc)
      (data_books (listBooks no_match st_rated (rated_3\<lparr>q_minRating := None\<rparr>)))
        = [''Foundation'', ''Dune'']"
    by code_simp
  have items: "map (title \<circ> doc) (data_books (listBooks no_match st_rated rated_3)) = [''Foundation'']"
    by code_simp
  have lim: "q_limit rated_3 = 2"
    by (simp add: rated_3_def all_books_def)
  have total: "totalBooks (data_pagination (listBooks no_match st_rated rated_3)) = 2"
    by code_simp
  have pages: "totalPages (data_pagination (listBooks no_match st_rated rated_3)) = 1"
    by code_simp
  from h1 h2 h3 inst page items lim total pages show ?thesis
    by blast
qed

subsection \<open>Sorting the listing by rating\<close>

text \<open>
  Claim C7: with \<open>sortBy = averageRating\<close> the store fetch is ordered by \<open>createdAt\<close>
  descending and the items of the fetched page are then reordered in memory, descending
  by rating for \<open>sortOrder = 'desc'\<close> and ascending for \<open>'asc'\<close>.

  The comparator is \<open>(b.averageRating - a.averageRating) * order\<close> with \<open>order = -1\<close>
  for \<open>'desc'\<close>: the sign is the wrong way round. In \<open>st_rated\<close> (Dune rated 2,
  Foundation rated 5) \<open>'desc'\<close> lists Dune first and \<open>'asc'\<close> lists Foundation first.
\<close>

theorem rating_sort_is_reversed:
  "map (\<lambda>d. (title (doc d), averageRating d))
       (data_books (listBooks no_match st_rated (by_rating ''desc'')))
     = [(''Dune'', 2), (''Foundation'', 5)]
   \<and> map (\<lambda>d. (title (doc d), averageRating d))
       (data_books (listBooks no_match st_rated (by_rating ''asc'')))
     = [(''Foundation'', 5), (''Dune'', 2)]"
  by code_simp

text \<open>In general, \<open>'desc'\<close> yields the page in ascending order of rating.\<close>

lemma rating_sort_desc_is_ascending:
  "sorted (map averageRating
     (data_books (listBooks rx st (q\<lparr>q_sortBy := SortAverageRating, q_sortOrder := ''desc''\<rparr>))))"
  by (simp add: data_books_listBooks Let_def rating_key_def [abs_def])

subsection \<open>The caller's own review\<close>

text \<open>
  Claim C8: for an authenticated caller \<open>getBook\<close> returns as \<open>userReview\<close> the caller's
  active Review of the book, and no review when the caller has none.

  The handler's id test compares a string with the ObjectId of the caller's document
  and never succeeds: in \<open>st_rated\<close> Bob has the active review 4 of book 2, and GET
  /api/books/2 with his token returns no \<open>userReview\<close>.
\<close>

theorem userReview_not_the_active_review:
  "map_sum id userReview (GET_book verify0 hydrated_ids st_rated (Some ''Bearer bob'') 2)
       = Inr None
   \<and> map (\<lambda>r. (key_of r, r_isActive r)) (reviews st_rated)
       = [((4, 2, 1), True), ((5, 3, 1), True)]"
  by code_simp

text \<open>No caller is ever shown a review as own.\<close>

lemma find_userReview_hydrated:
  "find_userReview hydrated_ids us uid rs = Inr found \<Longrightarrow> found = None"
  by (induction rs) (auto simp: hydrated_ids_def split: option.splits)

subsection \<open>Liking twice\<close>

text \<open>
  Claim C9: two \<open>toggleLike\<close> calls in sequence by the same user on the same Review
  return its liker set and its \<open>likeCount\<close> to what they were.

  In every store that requests can produce from the empty store, after the two calls
  every review has the likers (as a set), the \<open>likeCount\<close> and all other fields it had,
  and users and books are untouched.
\<close>

theorem toggleLike_twice:
  assumes "reachable verify st"
  shows "map like_view (reviews (fst (toggleLike (fst (toggleLike st u rid)) u rid)))
           = map like_view (reviews st)
       \<and> users (fst (toggleLike (fst (toggleLike st u rid)) u rid)) = users st
       \<and> books (fst (toggleLike (fst (toggleLike st u rid)) u rid)) = books st"
proof (cases "find (\<lambda>r. r_id r = rid \<and> r_isActive r) (reviews st)")
  case None
  then show ?thesis by (simp add: toggleLike_missing)
next
  case (Some r)
  from assms have ok: "store_ok st" by (rule reachable_store_ok)
  from find_Some_mem [OF Some] have mem: "r \<in> set (reviews st)" and act: "r_isActive r"
    by simp_all
  from ok have di: "distinct (map r_id (reviews st))" by (simp add: store_ok_def)
  from ok mem have dl: "distinct (likes r)" by (auto simp: store_ok_def list_all_iff)
  let ?uid = "u_id u"
  define l1 where "l1 = (if - 1 < indexOf (likes r) ?uid
      then splice1 (indexOf (likes r) ?uid) (likes r) else likes r @ [?uid])"
  define r1 where "r1 = r\<lparr>likes := l1\<rparr>"
  define l2 where "l2 = (if - 1 < indexOf l1 ?uid
      then splice1 (indexOf l1 ?uid) l1 else l1 @ [?uid])"
  define r2 where "r2 = r1\<lparr>likes := l2\<rparr>"
  have st1: "fst (toggleLike st u rid) = save_review st r1"
    using Some by (simp add: toggleLike_found r1_def l1_def)
  have "find (\<lambda>x. r_id x = rid \<and> r_isActive x) (reviews (save_review st r1)) = Some r1"
    using Some act by (intro find_after_save) (simp_all add: r1_def)
  moreover have "likes r1 = l1"
    by (simp add: r1_def)
  ultimately have st2:
    "fst (toggleLike (save_review st r1) u rid) = save_review (save_review st r1) r2"
    by (simp add: toggleLike_found r2_def l2_def)
  have rs2: "reviews (save_review (save_review st r1) r2) = reviews (save_review st r2)"
    by (rule save_review_twice) (simp add: r2_def)
  have "set l2 = set (likes r) \<and> length l2 = length (likes r)"
  proof (cases "?uid \<in> set (likes r)")
    case True
    with indexOf_present [OF True] have "l1 = remove1 ?uid (likes r)"
      by (simp add: l1_def splice1_indexOf)
    moreover from this dl have "?uid \<notin> set l1" by simp
    ultimately have "l2 = remove1 ?uid (likes r) @ [?uid]"
      by (simp add: l2_def indexOf_absent)
    moreover from True have "0 < length (likes r)"
      by (cases "likes r") simp_all
    ultimately show ?thesis
      using True dl by (auto simp: length_remove1)
  next
    case False
    then have "l1 = likes r @ [?uid]"
      by (simp add: l1_def indexOf_absent)
    with False have "l2 = likes r"
      by (simp add: l2_def indexOf_snoc splice1_snoc)
    then show ?thesis by simp
  qed
  then have "like_view r2 = like_view r"
    by (simp add: like_view_def likeCount_def r2_def r1_def)
  with di mem have "map like_view (map (\<lambda>x. if r_id x = r_id r2 then r2 else x) (reviews st))
      = map like_view (reviews st)"
    by (intro map_replace_view) (simp_all add: r2_def r1_def)
  then have "map like_view (reviews (save_review st r2)) = map like_view (reviews st)"
    by (simp add: save_review_def)
  then show ?thesis
    by (simp add: st1 st2 rs2 save_review_fields)
qed


text \<open>
  In \<open>st_rated\<close> review 4 is liked by Bob: his two calls unlike and like again, Ann's two
  calls like and unlike.
\<close>

theorem toggleLike_twice_witness:
  "reachable verify0 st_rated
   \<and> map like_view (reviews (fst (toggleLike (fst (toggleLike st_rated bob 4)) bob 4)))
       = map like_view (reviews st_rated)
   \<and> map likes (reviews st_rated) = [[1], []]
   \<and> map likes (reviews (fst (toggleLike st_rated bob 4))) = [[], []]
   \<and> map like_view (reviews (fst (toggleLike (fst (toggleLike st_rated ann 4)) ann 4)))
       = map like_view (reviews st_rated)
   \<and> map likes (reviews (fst (toggleLike st_rated ann 4))) = [[1, 0], []]"
proof -
  have r: "reachable verify0 st_rated"
    unfolding st_rated_def by (rule reachable_run)
  have before: "map likes (reviews st_rated) = [[1], []]"
    by code_simp
  have once: "map likes (reviews (fst (toggleLike st_rated bob 4))) = [[], []]"
    by code_simp
  have once': "map likes (reviews (fst (toggleLike st_rated ann 4))) = [[1, 0], []]"
    by code_simp
  from r toggleLike_twice [OF r, of bob 4] toggleLike_twice [OF r, of ann 4] before once once'
  show ?thesis by simp
qed

subsection \<open>One review record per book and user\<close>

text \<open>
  Claim C10: the store holds at most one Review record per pair (bookId, userId),
  active or not: the index is unconditional, no operation removes a record, so once a
  record for a pair exists no second one can be inserted.

  In every store that requests can produce from the empty store the pairs are distinct;
  whatever request comes next, every record is still there, in place, with its id and
  its pair; and \<open>createReview\<close> for a pair that has a record, deleted or not, leaves the
  store as it is.
\<close>

theorem one_record_per_pair:
  assumes "reachable verify st"
  shows "distinct (map pair_of (reviews st))
       \<and> (\<forall>req. take (length (reviews st)) (map key_of (reviews (handle verify st req)))
                  = map key_of (reviews st))
       \<and> (\<forall>u body now.
             list_ex (\<lambda>r. bookId r = rb_bookId body \<and> userId r = u_id u) (reviews st)
             \<longrightarrow> fst (createReview st u body now) = st)"
proof -
  from assms have ok: "store_ok st" by (rule reachable_store_ok)
  then have first: "distinct (map pair_of (reviews st))"
    by (simp add: store_ok_def)
  have second: "take (length (reviews st)) (map key_of (reviews (handle verify st req)))
      = map key_of (reviews st)" for req
    using keeps_handle [OF ok, of verify req] by (simp add: keeps_def)
  have third: "fst (createReview st u body now) = st"
    if "list_ex (\<lambda>r. bookId r = rb_bookId body \<and> userId r = u_id u) (reviews st)" for u body now
    using that
    by (auto simp: createReview_def insert_review_def same_pair_def list_ex_iff Let_def
        split: option.splits)
  from first second third show ?thesis by blast
qed

text \<open>
  In \<open>st_deleted_review\<close> the one record, of Bob for book 2, is soft-deleted; his new
  review inserts nothing.
\<close>

theorem one_record_per_pair_witness:
  "reachable verify0 st_deleted_review
   \<and> distinct (map pair_of (reviews st_deleted_review))
   \<and> map (\<lambda>r. (key_of r, r_isActive r)) (reviews st_deleted_review) = [((3, 2, 1), False)]
   \<and> take (length (reviews st_deleted_review))
        (map key_of (reviews (handle verify0 st_deleted_review
           (PostReview (Some ''Bearer bob'') (opinion 2 4) 40))))
       = map key_of (reviews st_deleted_review)
   \<and> list_ex (\<lambda>r. bookId r = rb_bookId (opinion 2 4) \<and> userId r = u_id bob)
        (reviews st_deleted_review)
   \<and> fst (createReview st_deleted_review bob (opinion 2 4) 40) = st_deleted_review"
proof -
  have r: "reachable verify0 st_deleted_review"
    unfolding st_deleted_review_def by (rule reachable_run)
  note inst = one_record_per_pair [OF r]
  have rec: "map (\<lambda>r. (key_of r, r_isActive r)) (reviews st_deleted_review) = [((3, 2, 1), False)]"
    by code_simp
  have ex: "list_ex (\<lambda>r. bookId r = rb_bookId (opinion 2 4) \<and> userId r = u_id bob)
      (reviews st_deleted_review)"
    by code_simp
  from inst ex have "fst (createReview st_deleted_review bob (opinion 2 4) 40) = st_deleted_review"
    by blast
  with r inst rec ex show ?thesis
    by blast
qed

end
